theory Spec2Isabelle
  imports Main "HOL-Library.AList" "HOL-Library.Sublist"
begin

section \<open>The plugin collection manager\<close>

text \<open>
  A shallow embedding of the class \<^verbatim>\<open>PluginCollectionManager\<close> (the second document of
  \<^verbatim>\<open>src/v3/@claude-flow/cli/src/config-adapter.ts\<close>). The manager's private fields
  become a record that every operation takes and returns; a thrown error is the
  \<open>Inl\<close> of the outcome, and the state that comes back with it is the state the
  manager is left in when the error is thrown (nothing is rolled back in the source).
\<close>

subsection \<open>Data model\<close>

datatype PluginCategory =
  agent | task | tool | memory | provider | hook | worker | integration | utility

datatype PluginCapability =
  network | filesystem | subprocess | memory_capability | llm | mcp

text \<open>The string a category is at run time (the source's type is a union of string literals).\<close>

fun category_name :: "PluginCategory \<Rightarrow> string" where
  "category_name agent = ''agent''"
| "category_name task = ''task''"
| "category_name tool = ''tool''"
| "category_name memory = ''memory''"
| "category_name provider = ''provider''"
| "category_name hook = ''hook''"
| "category_name worker = ''worker''"
| "category_name integration = ''integration''"
| "category_name utility = ''utility''"

text \<open>
  The plugin descriptor \<^verbatim>\<open>IPlugin\<close> is declared outside the given files. The manager reads
  \<^verbatim>\<open>metadata.name\<close> and \<^verbatim>\<open>metadata.description\<close> only.
  Modelled from the spec: \<open>md_dependencies\<close>, the names a plugin declares a dependency
  on (section 6 of the spec: the registry may refuse to unregister a plugin other
  registered plugins depend on). No operation of the manager reads it; only the example
  registry \<open>simple_registry\<close> below does.
\<close>

record PluginMetadata =
  md_name :: string
  md_description :: "string option"
  md_dependencies :: "string list"

record IPlugin =
  metadata :: PluginMetadata

text \<open>
  \<^verbatim>\<open>IPlugin | PluginFactory\<close>: a ready descriptor or a zero-argument factory. A factory is
  a pure function here: it returns the same descriptor at every call and does not throw.
\<close>

datatype PluginRef = Descriptor IPlugin | Factory "unit \<Rightarrow> IPlugin"

record PluginCollectionEntry =
  plugin :: PluginRef
  defaultEnabled :: bool
  category :: PluginCategory
  tags :: "string list option"
  requiredCapabilities :: "PluginCapability list option"
  description :: "string option"

record PluginCollection =
  coll_id :: string
  coll_name :: string
  coll_version :: string
  coll_description :: "string option"
  coll_author :: "string option"
  coll_license :: "string option"
  coll_repository :: "string option"
  coll_categories :: "PluginCategory list option"
  plugins :: "PluginCollectionEntry list"

text \<open>\<^verbatim>\<open>Record<string, unknown>\<close>: a settings payload, over any type of values.\<close>

type_synonym 'v Settings = "string \<rightharpoonup> 'v"

record 'v PluginConfig =
  cfg_enabled :: bool
  cfg_settings :: "'v Settings"

record 'v CollectionManagerState =
  state_version :: string
  state_collections :: "string list"
  state_enabledPlugins :: "(string \<times> string list) list"
  state_disabledPlugins :: "(string \<times> string list) list"
  state_pluginSettings :: "(string \<times> 'v Settings) list"

record CollectionStats =
  totalCollections :: nat
  totalPlugins :: nat
  enabledPlugins :: nat
  disabledPlugins :: nat
  byCategory :: "(PluginCategory \<times> nat) list"

subsection \<open>Errors, promises and truthiness\<close>

datatype error =
    CollectionAlreadyLoaded string
  | CollectionNotFound string
  | PluginNotFound string string
  | CannotDisable string
  | TypeError
  | RegistryError string

text \<open>
  A method declared \<^verbatim>\<open>async\<close> returns a promise object. Where the source writes
  \<^verbatim>\<open>await\<close>, the model continues with the value the promise is fulfilled with, or
  throws the error it is rejected with. Where the source uses the result of an
  \<^verbatim>\<open>async\<close> method with no \<^verbatim>\<open>await\<close>, the value in hand is the promise object itself:
  it is truthy whatever it settles to, and it has none of the properties of the value
  it would be fulfilled with.
\<close>

datatype 'a Promise = Fulfilled 'a | Rejected error

text \<open>The truth value of a promise object in a condition: an object is truthy.\<close>

fun truthy_promise :: "'a Promise \<Rightarrow> bool" where
  "truthy_promise (Fulfilled v) = True"
| "truthy_promise (Rejected e) = True"

text \<open>
  What a variable named \<^verbatim>\<open>entry\<close> holds in the source: an entry object of a
  collection (the loop variable of \<^verbatim>\<open>for (const entry of collection.plugins)\<close>), or
  the promise \<^verbatim>\<open>findPluginEntry\<close> returned, when the call was not awaited.
\<close>

datatype EntryValue =
    EntryObject PluginCollectionEntry
  | EntryPromise "PluginCollectionEntry option Promise"

fun truthy_entry :: "EntryValue \<Rightarrow> bool" where
  "truthy_entry (EntryObject e) = True"
| "truthy_entry (EntryPromise p) = True"

text \<open>
  What a method declared to return \<^verbatim>\<open>boolean\<close> hands back when one of its
  \<^verbatim>\<open>return\<close> statements returns the promise of an un-awaited call.
\<close>

datatype 'a Returned = Plain 'a | Promised "'a Promise"

fun truthy :: "bool Returned \<Rightarrow> bool" where
  "truthy (Plain b) = b"
| "truthy (Promised p) = truthy_promise p"

subsection \<open>The plugin registry\<close>

text \<open>
  Modelled from the spec: the external plugin registry (\<^verbatim>\<open>PluginRegistry\<close>, imported
  from \<^verbatim>\<open>../registry/plugin-registry.js\<close>, which is not among the given files). Section 6
  of the spec gives its boundary: \<^verbatim>\<open>register(descriptor, config)\<close> may fail,
  \<^verbatim>\<open>unregister(name)\<close> may fail, \<^verbatim>\<open>getPlugin(name)\<close> is an existence lookup. The
  registry is a parameter of the model: a state of any type \<open>'r\<close> and three
  functions on it. \<open>register\<close> and \<open>unregister\<close> return the error they throw, if any,
  and the state they leave.
\<close>

record ('r, 'v) PluginRegistry =
  reg_state :: 'r
  reg_register :: "'r \<Rightarrow> IPlugin \<Rightarrow> 'v PluginConfig \<Rightarrow> error option \<times> 'r"
  reg_unregister :: "'r \<Rightarrow> string \<Rightarrow> error option \<times> 'r"
  reg_getPlugin :: "'r \<Rightarrow> string \<Rightarrow> IPlugin option"

subsection \<open>The manager's state\<close>

text \<open>
  \<open>collections\<close> is a \<^verbatim>\<open>Map\<close> whose iteration order (insertion order) is observable
  in search results, hence an association list; the other maps are only looked up and
  updated by key. A \<^verbatim>\<open>Set<string>\<close> of names is a set.
\<close>

record ('r, 'v) PluginCollectionManager =
  collections :: "(string \<times> PluginCollection) list"
  enabledOverrides :: "string \<rightharpoonup> string set"
  disabledOverrides :: "string \<rightharpoonup> string set"
  pluginSettings :: "string \<rightharpoonup> 'v Settings"
  registry :: "('r, 'v) PluginRegistry"
  autoInitialize :: bool

type_synonym ('r, 'v, 'a) outcome = "(error + 'a) \<times> ('r, 'v) PluginCollectionManager"

text \<open>The constructor: \<^verbatim>\<open>autoInitialize\<close> defaults to true when the configuration omits it.\<close>

definition new_manager ::
  "('r, 'v) PluginRegistry \<Rightarrow> bool option \<Rightarrow> ('r, 'v) PluginCollectionManager" where
  "new_manager reg auto =
     \<lparr> collections = [], enabledOverrides = Map.empty, disabledOverrides = Map.empty,
       pluginSettings = Map.empty, registry = reg,
       autoInitialize = (case auto of None \<Rightarrow> True | Some b \<Rightarrow> b) \<rparr>"

text \<open>\<^verbatim>\<open>m.get(id)?.add(name)\<close>, \<^verbatim>\<open>m.get(id)?.delete(name)\<close>, \<^verbatim>\<open>m.get(id)?.has(name)\<close>.\<close>

definition override_add ::
  "(string \<rightharpoonup> string set) \<Rightarrow> string \<Rightarrow> string \<Rightarrow> (string \<rightharpoonup> string set)" where
  "override_add m cid n = (case m cid of None \<Rightarrow> m | Some s \<Rightarrow> m(cid \<mapsto> insert n s))"

definition override_delete ::
  "(string \<rightharpoonup> string set) \<Rightarrow> string \<Rightarrow> string \<Rightarrow> (string \<rightharpoonup> string set)" where
  "override_delete m cid n = (case m cid of None \<Rightarrow> m | Some s \<Rightarrow> m(cid \<mapsto> s - {n}))"

definition override_has :: "(string \<rightharpoonup> string set) \<Rightarrow> string \<Rightarrow> string \<Rightarrow> bool" where
  "override_has m cid n = (case m cid of None \<Rightarrow> False | Some s \<Rightarrow> n \<in> s)"

subsection \<open>Private helpers\<close>

text \<open>\<^verbatim>\<open>resolvePlugin\<close> on a descriptor or a factory (always awaited in the source).\<close>

fun resolvePlugin :: "PluginRef \<Rightarrow> IPlugin" where
  "resolvePlugin (Descriptor p) = p"
| "resolvePlugin (Factory f) = f ()"

text \<open>
  \<^verbatim>\<open>await this.resolvePlugin(entry.plugin)\<close>. On a promise object \<^verbatim>\<open>entry.plugin\<close> is
  \<^verbatim>\<open>undefined\<close>; \<^verbatim>\<open>resolvePlugin\<close> returns \<^verbatim>\<open>undefined\<close> as it is (it is not a
  function), here \<open>None\<close>. Reading \<^verbatim>\<open>.metadata\<close> of it then throws a \<^verbatim>\<open>TypeError\<close>.
\<close>

fun resolve_entry_plugin :: "EntryValue \<Rightarrow> IPlugin option" where
  "resolve_entry_plugin (EntryObject e) = Some (resolvePlugin (plugin e))"
| "resolve_entry_plugin (EntryPromise p) = None"

definition plugin_name :: "PluginCollectionEntry \<Rightarrow> string" where
  "plugin_name e = md_name (metadata (resolvePlugin (plugin e)))"

text \<open>\<^verbatim>\<open>findPluginEntry\<close> is \<^verbatim>\<open>async\<close>: its result is a promise of the entry or of \<^verbatim>\<open>undefined\<close>.\<close>

fun find_entry :: "PluginCollectionEntry list \<Rightarrow> string \<Rightarrow> PluginCollectionEntry option" where
  "find_entry [] pluginName = None"
| "find_entry (entry # rest) pluginName =
     (if md_name (metadata (resolvePlugin (plugin entry))) = pluginName then Some entry
      else find_entry rest pluginName)"

definition findPluginEntry ::
  "PluginCollection \<Rightarrow> string \<Rightarrow> PluginCollectionEntry option Promise" where
  "findPluginEntry collection pluginName = Fulfilled (find_entry (plugins collection) pluginName)"

text \<open>
  \<^verbatim>\<open>isPluginEnabled\<close> is \<^verbatim>\<open>async\<close>. Given an entry object it is fulfilled with the
  override-aware state. Given a promise object, \<^verbatim>\<open>entry.plugin\<close> is \<^verbatim>\<open>undefined\<close>,
  \<^verbatim>\<open>resolvePlugin\<close> hands it back, and \<^verbatim>\<open>plugin.metadata\<close> throws inside the
  \<^verbatim>\<open>async\<close> body: the promise returned is rejected.
\<close>

fun isPluginEnabled ::
  "('r, 'v) PluginCollectionManager \<Rightarrow> string \<Rightarrow> EntryValue \<Rightarrow> bool Promise" where
  "isPluginEnabled st collectionId (EntryObject e) =
     (let name = md_name (metadata (resolvePlugin (plugin e))) in
      if override_has (enabledOverrides st) collectionId name then Fulfilled True
      else if override_has (disabledOverrides st) collectionId name then Fulfilled False
      else Fulfilled (defaultEnabled e))"
| "isPluginEnabled st collectionId (EntryPromise p) = Rejected TypeError"

definition registry_getPlugin ::
  "('r, 'v) PluginCollectionManager \<Rightarrow> string \<Rightarrow> IPlugin option" where
  "registry_getPlugin st n = reg_getPlugin (registry st) (reg_state (registry st)) n"

definition registry_register ::
  "('r, 'v) PluginCollectionManager \<Rightarrow> IPlugin \<Rightarrow> 'v PluginConfig \<Rightarrow> ('r, 'v, unit) outcome" where
  "registry_register st p config =
     (case reg_register (registry st) (reg_state (registry st)) p config of
        (err, r) \<Rightarrow>
          ((case err of None \<Rightarrow> Inr () | Some e \<Rightarrow> Inl e),
           st\<lparr>registry := (registry st)\<lparr>reg_state := r\<rparr>\<rparr>))"

definition registry_unregister ::
  "('r, 'v) PluginCollectionManager \<Rightarrow> string \<Rightarrow> ('r, 'v, unit) outcome" where
  "registry_unregister st n =
     (case reg_unregister (registry st) (reg_state (registry st)) n of
        (err, r) \<Rightarrow>
          ((case err of None \<Rightarrow> Inr () | Some e \<Rightarrow> Inl e),
           st\<lparr>registry := (registry st)\<lparr>reg_state := r\<rparr>\<rparr>))"

text \<open>
  \<^verbatim>\<open>registerPlugin\<close>: the stored settings of the plugin's name, or the empty object, go
  to the registry with \<^verbatim>\<open>enabled: true\<close>. The branch on \<^verbatim>\<open>autoInitialize\<close> that
  follows in the source is empty.
\<close>

definition registerPlugin ::
  "('r, 'v) PluginCollectionManager \<Rightarrow> EntryValue \<Rightarrow> ('r, 'v, unit) outcome" where
  "registerPlugin st entry =
     (case resolve_entry_plugin entry of
        None \<Rightarrow> (Inl TypeError, st)
      | Some p \<Rightarrow>
          (let settings = pluginSettings st (md_name (metadata p));
               config = \<lparr> cfg_enabled = True,
                          cfg_settings = (case settings of None \<Rightarrow> Map.empty | Some s \<Rightarrow> s) \<rparr>
           in registry_register st p config))"

subsection \<open>Collection management\<close>

text \<open>
  The loop of \<^verbatim>\<open>loadCollection\<close>. Its condition is the promise
  \<^verbatim>\<open>this.isPluginEnabled(collection.id, entry)\<close> itself: the call is not awaited.
  A registration that throws ends the loop; what was registered stays registered.
\<close>

fun load_entries ::
  "('r, 'v) PluginCollectionManager \<Rightarrow> string \<Rightarrow> PluginCollectionEntry list \<Rightarrow>
   ('r, 'v, unit) outcome" where
  "load_entries st cid [] = (Inr (), st)"
| "load_entries st cid (entry # rest) =
     (if truthy_promise (isPluginEnabled st cid (EntryObject entry))
      then (case registerPlugin st (EntryObject entry) of
              (Inl e, st') \<Rightarrow> (Inl e, st')
            | (Inr u, st') \<Rightarrow> load_entries st' cid rest)
      else load_entries st cid rest)"

definition loadCollection ::
  "('r, 'v) PluginCollectionManager \<Rightarrow> PluginCollection \<Rightarrow> ('r, 'v, unit) outcome" where
  "loadCollection st collection =
     (case map_of (collections st) (coll_id collection) of
        Some c \<Rightarrow> (Inl (CollectionAlreadyLoaded (coll_id collection)), st)
      | None \<Rightarrow>
          load_entries
            (st\<lparr> collections := AList.update (coll_id collection) collection (collections st),
                 enabledOverrides := (enabledOverrides st)(coll_id collection \<mapsto> {}),
                 disabledOverrides := (disabledOverrides st)(coll_id collection \<mapsto> {}) \<rparr>)
            (coll_id collection) (plugins collection))"

text \<open>The loop of \<^verbatim>\<open>unloadCollection\<close>: an unregister that throws is ignored.\<close>

fun unload_entries ::
  "('r, 'v) PluginCollectionManager \<Rightarrow> PluginCollectionEntry list \<Rightarrow>
   ('r, 'v) PluginCollectionManager" where
  "unload_entries st [] = st"
| "unload_entries st (entry # rest) =
     (let name = md_name (metadata (resolvePlugin (plugin entry))) in
      case registry_getPlugin st name of
        None \<Rightarrow> unload_entries st rest
      | Some p \<Rightarrow> unload_entries (snd (registry_unregister st name)) rest)"

definition unloadCollection ::
  "('r, 'v) PluginCollectionManager \<Rightarrow> string \<Rightarrow> ('r, 'v, unit) outcome" where
  "unloadCollection st collectionId =
     (case map_of (collections st) collectionId of
        None \<Rightarrow> (Inl (CollectionNotFound collectionId), st)
      | Some collection \<Rightarrow>
          (let st1 = unload_entries st (plugins collection) in
           (Inr (),
            st1\<lparr> collections := AList.delete collectionId (collections st1),
                  enabledOverrides := (enabledOverrides st1)(collectionId := None),
                  disabledOverrides := (disabledOverrides st1)(collectionId := None) \<rparr>)))"

subsection \<open>Plugin activation\<close>

text \<open>
  In \<^verbatim>\<open>enablePlugin\<close>, \<^verbatim>\<open>disablePlugin\<close> and \<^verbatim>\<open>isEnabled\<close> the variable
  \<^verbatim>\<open>entry\<close> is bound to \<^verbatim>\<open>this.findPluginEntry(collection, pluginName)\<close> with no
  \<^verbatim>\<open>await\<close>: it holds the promise. The override sets are changed before the plugin is
  resolved, and nothing restores them when a later statement throws.
\<close>

definition enablePlugin ::
  "('r, 'v) PluginCollectionManager \<Rightarrow> string \<Rightarrow> string \<Rightarrow> ('r, 'v, unit) outcome" where
  "enablePlugin st collectionId pluginName =
     (case map_of (collections st) collectionId of
        None \<Rightarrow> (Inl (CollectionNotFound collectionId), st)
      | Some collection \<Rightarrow>
          (let entry = EntryPromise (findPluginEntry collection pluginName) in
           if \<not> truthy_entry entry then (Inl (PluginNotFound pluginName collectionId), st)
           else
             (let st1 = st\<lparr> disabledOverrides :=
                               override_delete (disabledOverrides st) collectionId pluginName,
                             enabledOverrides :=
                               override_add (enabledOverrides st) collectionId pluginName \<rparr>
              in case resolve_entry_plugin entry of
                   None \<Rightarrow> (Inl TypeError, st1)
                 | Some p \<Rightarrow>
                     (case registry_getPlugin st1 (md_name (metadata p)) of
                        None \<Rightarrow> registerPlugin st1 entry
                      | Some q \<Rightarrow> (Inr (), st1)))))"

definition disablePlugin ::
  "('r, 'v) PluginCollectionManager \<Rightarrow> string \<Rightarrow> string \<Rightarrow> ('r, 'v, unit) outcome" where
  "disablePlugin st collectionId pluginName =
     (case map_of (collections st) collectionId of
        None \<Rightarrow> (Inl (CollectionNotFound collectionId), st)
      | Some collection \<Rightarrow>
          (let entry = EntryPromise (findPluginEntry collection pluginName) in
           if \<not> truthy_entry entry then (Inl (PluginNotFound pluginName collectionId), st)
           else
             (let st1 = st\<lparr> enabledOverrides :=
                               override_delete (enabledOverrides st) collectionId pluginName,
                             disabledOverrides :=
                               override_add (disabledOverrides st) collectionId pluginName \<rparr>
              in case resolve_entry_plugin entry of
                   None \<Rightarrow> (Inl TypeError, st1)
                 | Some p \<Rightarrow>
                     (case registry_getPlugin st1 (md_name (metadata p)) of
                        None \<Rightarrow> (Inr (), st1)
                      | Some q \<Rightarrow>
                          (case registry_unregister st1 (md_name (metadata p)) of
                             (Inl e, st2) \<Rightarrow> (Inl (CannotDisable pluginName), st2)
                           | (Inr u, st2) \<Rightarrow> (Inr (), st2))))))"

text \<open>
  \<^verbatim>\<open>isEnabled\<close> is not \<^verbatim>\<open>async\<close>. Its last statement returns the promise of
  \<^verbatim>\<open>isPluginEnabled\<close>, called on the promise held by \<^verbatim>\<open>entry\<close>.
\<close>

definition isEnabled ::
  "('r, 'v) PluginCollectionManager \<Rightarrow> string \<Rightarrow> string \<Rightarrow> bool Returned" where
  "isEnabled st collectionId pluginName =
     (case map_of (collections st) collectionId of
        None \<Rightarrow> Plain False
      | Some collection \<Rightarrow>
          (let entry = EntryPromise (findPluginEntry collection pluginName) in
           if \<not> truthy_entry entry then Plain False
           else Promised (isPluginEnabled st collectionId entry)))"

definition togglePlugin ::
  "('r, 'v) PluginCollectionManager \<Rightarrow> string \<Rightarrow> string \<Rightarrow> ('r, 'v, bool) outcome" where
  "togglePlugin st collectionId pluginName =
     (if truthy (isEnabled st collectionId pluginName)
      then (case disablePlugin st collectionId pluginName of
              (Inl e, st') \<Rightarrow> (Inl e, st')
            | (Inr u, st') \<Rightarrow> (Inr False, st'))
      else (case enablePlugin st collectionId pluginName of
              (Inl e, st') \<Rightarrow> (Inl e, st')
            | (Inr u, st') \<Rightarrow> (Inr True, st')))"

subsection \<open>Bulk operations\<close>

fun enable_entries ::
  "('r, 'v) PluginCollectionManager \<Rightarrow> string \<Rightarrow> PluginCollectionEntry list \<Rightarrow>
   ('r, 'v, unit) outcome" where
  "enable_entries st cid [] = (Inr (), st)"
| "enable_entries st cid (entry # rest) =
     (case enablePlugin st cid (md_name (metadata (resolvePlugin (plugin entry)))) of
        (Inl e, st') \<Rightarrow> (Inl e, st')
      | (Inr u, st') \<Rightarrow> enable_entries st' cid rest)"

definition enableAll ::
  "('r, 'v) PluginCollectionManager \<Rightarrow> string \<Rightarrow> ('r, 'v, unit) outcome" where
  "enableAll st collectionId =
     (case map_of (collections st) collectionId of
        None \<Rightarrow> (Inl (CollectionNotFound collectionId), st)
      | Some collection \<Rightarrow> enable_entries st collectionId (plugins collection))"

text \<open>\<^verbatim>\<open>disableAll\<close> walks the entries in reverse and swallows every error.\<close>

fun disable_entries ::
  "('r, 'v) PluginCollectionManager \<Rightarrow> string \<Rightarrow> PluginCollectionEntry list \<Rightarrow>
   ('r, 'v) PluginCollectionManager" where
  "disable_entries st cid [] = st"
| "disable_entries st cid (entry # rest) =
     disable_entries
       (snd (disablePlugin st cid (md_name (metadata (resolvePlugin (plugin entry)))))) cid rest"

definition disableAll ::
  "('r, 'v) PluginCollectionManager \<Rightarrow> string \<Rightarrow> ('r, 'v, unit) outcome" where
  "disableAll st collectionId =
     (case map_of (collections st) collectionId of
        None \<Rightarrow> (Inl (CollectionNotFound collectionId), st)
      | Some collection \<Rightarrow> (Inr (), disable_entries st collectionId (rev (plugins collection))))"

fun enable_category_entries ::
  "('r, 'v) PluginCollectionManager \<Rightarrow> PluginCategory \<Rightarrow> string \<Rightarrow>
   PluginCollectionEntry list \<Rightarrow> ('r, 'v) PluginCollectionManager" where
  "enable_category_entries st cat cid [] = st"
| "enable_category_entries st cat cid (entry # rest) =
     (if category entry = cat
      then enable_category_entries
             (snd (enablePlugin st cid (md_name (metadata (resolvePlugin (plugin entry))))))
             cat cid rest
      else enable_category_entries st cat cid rest)"

fun enable_category_collections ::
  "('r, 'v) PluginCollectionManager \<Rightarrow> PluginCategory \<Rightarrow>
   (string \<times> PluginCollection) list \<Rightarrow> ('r, 'v) PluginCollectionManager" where
  "enable_category_collections st cat [] = st"
| "enable_category_collections st cat ((cid, collection) # rest) =
     enable_category_collections
       (enable_category_entries st cat cid (plugins collection)) cat rest"

definition enableCategory ::
  "('r, 'v) PluginCollectionManager \<Rightarrow> PluginCategory \<Rightarrow> ('r, 'v) PluginCollectionManager" where
  "enableCategory st cat = enable_category_collections st cat (collections st)"

fun disable_category_entries ::
  "('r, 'v) PluginCollectionManager \<Rightarrow> PluginCategory \<Rightarrow> string \<Rightarrow>
   PluginCollectionEntry list \<Rightarrow> ('r, 'v) PluginCollectionManager" where
  "disable_category_entries st cat cid [] = st"
| "disable_category_entries st cat cid (entry # rest) =
     (if category entry = cat
      then disable_category_entries
             (snd (disablePlugin st cid (md_name (metadata (resolvePlugin (plugin entry))))))
             cat cid rest
      else disable_category_entries st cat cid rest)"

fun disable_category_collections ::
  "('r, 'v) PluginCollectionManager \<Rightarrow> PluginCategory \<Rightarrow>
   (string \<times> PluginCollection) list \<Rightarrow> ('r, 'v) PluginCollectionManager" where
  "disable_category_collections st cat [] = st"
| "disable_category_collections st cat ((cid, collection) # rest) =
     disable_category_collections
       (disable_category_entries st cat cid (rev (plugins collection))) cat rest"

definition disableCategory ::
  "('r, 'v) PluginCollectionManager \<Rightarrow> PluginCategory \<Rightarrow> ('r, 'v) PluginCollectionManager" where
  "disableCategory st cat = disable_category_collections st cat (collections st)"

subsection \<open>Search\<close>

text \<open>
  A string is a list of characters, each read as a UTF-16 code unit below 256 (Basic
  Latin and Latin-1); strings with other code units are outside the model. On such a
  string \<^verbatim>\<open>toLowerCase\<close> works code unit by code unit: the capital letters, A to Z
  (65 to 90) and the Latin-1 capitals (192 to 222 without the multiplication sign 215),
  go to the code unit 32 above, their small letter, and every other code unit stays as
  it is. \<^verbatim>\<open>s.includes(q)\<close> holds when \<open>q\<close> occurs in \<open>s\<close> as a contiguous substring
  (the empty string always does).
\<close>

definition lower_char :: "char \<Rightarrow> char" where
  "lower_char c =
     (let n = (of_char c :: nat) in
      if (65 \<le> n \<and> n \<le> 90) \<or> (192 \<le> n \<and> n \<le> 222 \<and> n \<noteq> 215)
      then char_of (n + 32) else c)"

definition toLowerCase :: "string \<Rightarrow> string" where
  "toLowerCase s = map lower_char s"

fun str_includes :: "string \<Rightarrow> string \<Rightarrow> bool" where
  "str_includes [] q = (q = [])"
| "str_includes (c # s) q = (prefix q (c # s) \<or> str_includes s q)"

record SearchResult =
  res_collectionId :: string
  res_entry :: PluginCollectionEntry
  res_pluginName :: string
  res_enabled :: "bool Promise"
  res_score :: int

text \<open>The body of the inner loop of \<^verbatim>\<open>searchPlugins\<close> up to the test \<^verbatim>\<open>score > 0\<close>.\<close>

definition score_entry :: "string \<Rightarrow> PluginCollectionEntry \<Rightarrow> int" where
  "score_entry queryLower e =
     (let p = resolvePlugin (plugin e);
          name = toLowerCase (md_name (metadata p));
          descr = toLowerCase
                    (case description e of
                       Some d \<Rightarrow> d
                     | None \<Rightarrow> (case md_description (metadata p) of Some d \<Rightarrow> d | None \<Rightarrow> []));
          s0 = 0;
          s1 = (if name = queryLower then s0 + 100
                else if str_includes name queryLower then s0 + 50 else s0);
          s2 = (if str_includes descr queryLower then s1 + 25 else s1);
          s3 = (if (case tags e of
                      None \<Rightarrow> False
                    | Some ts \<Rightarrow> list_ex (\<lambda>t. str_includes (toLowerCase t) queryLower) ts)
                then s2 + 30 else s2);
          s4 = (if str_includes (toLowerCase (category_name (category e))) queryLower
                then s3 + 20 else s3)
      in s4)"

text \<open>The record pushed for an entry; \<open>res_enabled\<close> holds the promise (the call is not awaited).\<close>

definition search_result ::
  "('r, 'v) PluginCollectionManager \<Rightarrow> string \<Rightarrow> string \<Rightarrow> PluginCollectionEntry \<Rightarrow>
   SearchResult" where
  "search_result st queryLower cid e =
     \<lparr> res_collectionId = cid, res_entry = e,
       res_pluginName = md_name (metadata (resolvePlugin (plugin e))),
       res_enabled = isPluginEnabled st cid (EntryObject e),
       res_score = score_entry queryLower e \<rparr>"

fun search_entries ::
  "('r, 'v) PluginCollectionManager \<Rightarrow> string \<Rightarrow> string \<Rightarrow> PluginCollectionEntry list \<Rightarrow>
   SearchResult list \<Rightarrow> SearchResult list" where
  "search_entries st queryLower cid [] results = results"
| "search_entries st queryLower cid (e # rest) results =
     search_entries st queryLower cid rest
       (if score_entry queryLower e > 0
        then results @ [search_result st queryLower cid e] else results)"

fun search_collections ::
  "('r, 'v) PluginCollectionManager \<Rightarrow> string \<Rightarrow> (string \<times> PluginCollection) list \<Rightarrow>
   SearchResult list \<Rightarrow> SearchResult list" where
  "search_collections st queryLower [] results = results"
| "search_collections st queryLower ((cid, collection) # rest) results =
     search_collections st queryLower rest
       (search_entries st queryLower cid (plugins collection) results)"

text \<open>
  \<^verbatim>\<open>Array.prototype.sort\<close> with a comparator is a stable sort: here insertion from the
  right, an element going in front of the first one it does not compare greater than.
\<close>

fun insert_sorted :: "('a \<Rightarrow> 'a \<Rightarrow> int) \<Rightarrow> 'a \<Rightarrow> 'a list \<Rightarrow> 'a list" where
  "insert_sorted cmp x [] = [x]"
| "insert_sorted cmp x (y # ys) =
     (if cmp x y \<le> 0 then x # y # ys else y # insert_sorted cmp x ys)"

definition array_sort :: "('a \<Rightarrow> 'a \<Rightarrow> int) \<Rightarrow> 'a list \<Rightarrow> 'a list" where
  "array_sort cmp xs = foldr (insert_sorted cmp) xs []"

definition searchPlugins ::
  "('r, 'v) PluginCollectionManager \<Rightarrow> string \<Rightarrow> SearchResult list" where
  "searchPlugins st query =
     (let queryLower = toLowerCase query in
      array_sort (\<lambda>a b. res_score b - res_score a)
        (search_collections st queryLower (collections st) []))"

text \<open>
  Matching without regard to case, stated on the letters and not through
  \<^verbatim>\<open>toLowerCase\<close>: two characters are the same letter when they are equal or one is
  the capital of the other; two strings are equal up to case when they have the same
  length and the same letters, position by position; a string occurs in another up to
  case when it is equal up to case to one of its contiguous substrings.
\<close>

definition capital_of :: "char \<Rightarrow> char \<Rightarrow> bool" where
  "capital_of u l =
     (let n = (of_char u :: nat); m = (of_char l :: nat) in
      ((65 \<le> n \<and> n \<le> 90) \<or> (192 \<le> n \<and> n \<le> 222 \<and> n \<noteq> 215)) \<and> m = n + 32)"

definition same_letter :: "char \<Rightarrow> char \<Rightarrow> bool" where
  "same_letter c d = (c = d \<or> capital_of c d \<or> capital_of d c)"

definition ci_equal :: "string \<Rightarrow> string \<Rightarrow> bool" where
  "ci_equal a b = list_all2 same_letter a b"

fun ci_includes :: "string \<Rightarrow> string \<Rightarrow> bool" where
  "ci_includes [] q = (q = [])"
| "ci_includes (c # s) q = (ci_equal (take (length q) (c # s)) q \<or> ci_includes s q)"

text \<open>
  The scoring rule in the words of the spec (section 4.4), to compare \<open>score_entry\<close>
  with: case-insensitive; 100 for an exact name match, else 50 for a name substring
  match; plus 25, 30 and 20 for a description, tag and category substring match.
\<close>

definition effective_description :: "PluginCollectionEntry \<Rightarrow> string" where
  "effective_description e =
     (case description e of
        Some d \<Rightarrow> d
      | None \<Rightarrow> (case md_description (metadata (resolvePlugin (plugin e))) of
                   Some d \<Rightarrow> d | None \<Rightarrow> []))"

definition spec_score :: "string \<Rightarrow> PluginCollectionEntry \<Rightarrow> int" where
  "spec_score query e =
     (if ci_equal (plugin_name e) query then 100
      else if ci_includes (plugin_name e) query then 50 else 0)
     + (if ci_includes (effective_description e) query then 25 else 0)
     + (if list_ex (\<lambda>t. ci_includes t query)
             (case tags e of None \<Rightarrow> [] | Some ts \<Rightarrow> ts) then 30 else 0)
     + (if ci_includes (category_name (category e)) query then 20 else 0)"


subsection \<open>Settings\<close>

definition getPluginSettings ::
  "('r, 'v) PluginCollectionManager \<Rightarrow> string \<Rightarrow> 'v Settings" where
  "getPluginSettings st pluginName =
     (case pluginSettings st pluginName of None \<Rightarrow> Map.empty | Some s \<Rightarrow> s)"

definition setPluginSettings ::
  "('r, 'v) PluginCollectionManager \<Rightarrow> string \<Rightarrow> 'v Settings \<Rightarrow>
   ('r, 'v) PluginCollectionManager" where
  "setPluginSettings st pluginName settings =
     st\<lparr> pluginSettings := (pluginSettings st)(pluginName \<mapsto> settings) \<rparr>"

text \<open>\<^verbatim>\<open>{ ...existing, ...settings }\<close>: the keys of \<^verbatim>\<open>settings\<close> win.\<close>

definition updatePluginSettings ::
  "('r, 'v) PluginCollectionManager \<Rightarrow> string \<Rightarrow> 'v Settings \<Rightarrow>
   ('r, 'v) PluginCollectionManager" where
  "updatePluginSettings st pluginName settings =
     (let existing = (case pluginSettings st pluginName of None \<Rightarrow> Map.empty | Some s \<Rightarrow> s)
      in st\<lparr> pluginSettings := (pluginSettings st)(pluginName \<mapsto> existing ++ settings) \<rparr>)"

subsection \<open>State import\<close>

text \<open>
  The three loops of \<^verbatim>\<open>importState\<close> over \<^verbatim>\<open>Object.entries\<close>: each key's set is
  replaced by the set of the names listed for it, each set on its own.
\<close>

fun import_enabled ::
  "('r, 'v) PluginCollectionManager \<Rightarrow> (string \<times> string list) list \<Rightarrow>
   ('r, 'v) PluginCollectionManager" where
  "import_enabled st [] = st"
| "import_enabled st ((cid, names) # rest) =
     import_enabled (st\<lparr> enabledOverrides := (enabledOverrides st)(cid \<mapsto> set names) \<rparr>) rest"

fun import_disabled ::
  "('r, 'v) PluginCollectionManager \<Rightarrow> (string \<times> string list) list \<Rightarrow>
   ('r, 'v) PluginCollectionManager" where
  "import_disabled st [] = st"
| "import_disabled st ((cid, names) # rest) =
     import_disabled (st\<lparr> disabledOverrides := (disabledOverrides st)(cid \<mapsto> set names) \<rparr>) rest"

fun import_settings ::
  "('r, 'v) PluginCollectionManager \<Rightarrow> (string \<times> 'v Settings) list \<Rightarrow>
   ('r, 'v) PluginCollectionManager" where
  "import_settings st [] = st"
| "import_settings st ((n, settings) # rest) =
     import_settings (st\<lparr> pluginSettings := (pluginSettings st)(n \<mapsto> settings) \<rparr>) rest"

definition importState ::
  "('r, 'v) PluginCollectionManager \<Rightarrow> 'v CollectionManagerState \<Rightarrow>
   ('r, 'v) PluginCollectionManager" where
  "importState st state =
     import_settings
       (import_disabled
          (import_enabled st (state_enabledPlugins state))
          (state_disabledPlugins state))
       (state_pluginSettings state)"

subsection \<open>Statistics\<close>

text \<open>\<^verbatim>\<open>byCategory[entry.category]++\<close> on a table that holds every category.\<close>

fun increment :: "(PluginCategory \<times> nat) list \<Rightarrow> PluginCategory \<Rightarrow> (PluginCategory \<times> nat) list" where
  "increment [] cat = []"
| "increment ((k, n) # rest) cat =
     (if k = cat then (k, n + 1) # rest else (k, n) # increment rest cat)"

text \<open>
  The body of the inner loop of \<^verbatim>\<open>getStats\<close>. The condition is the promise
  \<^verbatim>\<open>this.isPluginEnabled(collectionId, entry)\<close> itself: the call is not awaited.
\<close>

fun stats_entries ::
  "('r, 'v) PluginCollectionManager \<Rightarrow> string \<Rightarrow> PluginCollectionEntry list \<Rightarrow>
   CollectionStats \<Rightarrow> CollectionStats" where
  "stats_entries st cid [] acc = acc"
| "stats_entries st cid (e # rest) acc =
     (let acc1 = acc\<lparr> totalPlugins := totalPlugins acc + 1,
                      byCategory := increment (byCategory acc) (category e) \<rparr>;
          acc2 = (if truthy_promise (isPluginEnabled st cid (EntryObject e))
                  then acc1\<lparr> enabledPlugins := enabledPlugins acc1 + 1 \<rparr>
                  else acc1\<lparr> disabledPlugins := disabledPlugins acc1 + 1 \<rparr>)
      in stats_entries st cid rest acc2)"

fun stats_collections ::
  "('r, 'v) PluginCollectionManager \<Rightarrow> (string \<times> PluginCollection) list \<Rightarrow>
   CollectionStats \<Rightarrow> CollectionStats" where
  "stats_collections st [] acc = acc"
| "stats_collections st ((cid, collection) # rest) acc =
     stats_collections st rest (stats_entries st cid (plugins collection) acc)"

definition getStats :: "('r, 'v) PluginCollectionManager \<Rightarrow> CollectionStats" where
  "getStats st =
     stats_collections st (collections st)
       \<lparr> totalCollections = length (collections st), totalPlugins = 0,
         enabledPlugins = 0, disabledPlugins = 0,
         byCategory = [(agent, 0), (task, 0), (tool, 0), (memory, 0), (provider, 0),
                       (hook, 0), (worker, 0), (integration, 0), (utility, 0)] \<rparr>"

subsection \<open>Sequences of operations\<close>

text \<open>
  The operations that change the manager, and the state each leaves, whether it
  returns or throws (a caller that catches the error goes on with that state).
\<close>

datatype 'v Operation =
    LoadCollection PluginCollection
  | UnloadCollection string
  | EnablePlugin string string
  | DisablePlugin string string
  | TogglePlugin string string
  | EnableAll string
  | DisableAll string
  | EnableCategory PluginCategory
  | DisableCategory PluginCategory
  | SetPluginSettings string "'v Settings"
  | UpdatePluginSettings string "'v Settings"
  | ImportState "'v CollectionManagerState"

fun apply_operation ::
  "('r, 'v) PluginCollectionManager \<Rightarrow> 'v Operation \<Rightarrow> ('r, 'v) PluginCollectionManager" where
  "apply_operation st (LoadCollection c) = snd (loadCollection st c)"
| "apply_operation st (UnloadCollection cid) = snd (unloadCollection st cid)"
| "apply_operation st (EnablePlugin cid n) = snd (enablePlugin st cid n)"
| "apply_operation st (DisablePlugin cid n) = snd (disablePlugin st cid n)"
| "apply_operation st (TogglePlugin cid n) = snd (togglePlugin st cid n)"
| "apply_operation st (EnableAll cid) = snd (enableAll st cid)"
| "apply_operation st (DisableAll cid) = snd (disableAll st cid)"
| "apply_operation st (EnableCategory cat) = enableCategory st cat"
| "apply_operation st (DisableCategory cat) = disableCategory st cat"
| "apply_operation st (SetPluginSettings n s) = setPluginSettings st n s"
| "apply_operation st (UpdatePluginSettings n s) = updatePluginSettings st n s"
| "apply_operation st (ImportState state) = importState st state"

fun run ::
  "('r, 'v) PluginCollectionManager \<Rightarrow> 'v Operation list \<Rightarrow> ('r, 'v) PluginCollectionManager" where
  "run st [] = st"
| "run st (op # ops) = run (apply_operation st op) ops"

text \<open>
  The set \<^verbatim>\<open>importState\<close> leaves for a collection id: the names the snapshot lists for
  the id (the last listing, should the id be listed twice), or the set held before
  when the snapshot does not list the id.
\<close>

definition imported_set ::
  "(string \<times> string list) list \<Rightarrow> (string \<rightharpoonup> string set) \<Rightarrow> string \<Rightarrow> string set option" where
  "imported_set listed held cid =
     (case map_of (rev listed) cid of Some names \<Rightarrow> Some (set names) | None \<Rightarrow> held cid)"

definition sets_disjoint :: "string set option \<Rightarrow> string set option \<Rightarrow> bool" where
  "sets_disjoint a b =
     (case a of None \<Rightarrow> True | Some x \<Rightarrow> (case b of None \<Rightarrow> True | Some y \<Rightarrow> x \<inter> y = {}))"

text \<open>
  A snapshot is consistent with a state when, for every collection id it lists, the
  enabled names the import leaves for the id share no name with the disabled names it
  leaves for the id.
\<close>

definition import_consistent ::
  "('r, 'v) PluginCollectionManager \<Rightarrow> 'v CollectionManagerState \<Rightarrow> bool" where
  "import_consistent st state =
     list_all
       (\<lambda>cid. sets_disjoint
                (imported_set (state_enabledPlugins state) (enabledOverrides st) cid)
                (imported_set (state_disabledPlugins state) (disabledOverrides st) cid))
       (map fst (state_enabledPlugins state) @ map fst (state_disabledPlugins state))"

fun consistent_imports ::
  "('r, 'v) PluginCollectionManager \<Rightarrow> 'v Operation list \<Rightarrow> bool" where
  "consistent_imports st [] = True"
| "consistent_imports st (ImportState state # ops) =
     (import_consistent st state \<and> consistent_imports (importState st state) ops)"
| "consistent_imports st (op # ops) = consistent_imports (apply_operation st op) ops"

text \<open>No name is in both override sets of a collection id.\<close>

definition overrides_disjoint :: "('r, 'v) PluginCollectionManager \<Rightarrow> bool" where
  "overrides_disjoint st =
     (\<forall>cid. sets_disjoint (enabledOverrides st cid) (disabledOverrides st cid))"

subsection \<open>An example registry and an example collection\<close>

text \<open>
  Modelled from the spec: a registry to run the manager on, for the examples only; the
  general theorems hold for every registry. It keeps the registered plugins with their
  configurations in registration order, refuses to register a name twice, and refuses
  to unregister a plugin that is not registered or that a registered plugin declares a
  dependency on (section 6 of the spec).
\<close>

definition simple_getPlugin :: "(IPlugin \<times> 'v PluginConfig) list \<Rightarrow> string \<Rightarrow> IPlugin option" where
  "simple_getPlugin r n = map_option fst (find (\<lambda>(q, c). md_name (metadata q) = n) r)"

definition simple_register ::
  "(IPlugin \<times> 'v PluginConfig) list \<Rightarrow> IPlugin \<Rightarrow> 'v PluginConfig \<Rightarrow>
   error option \<times> (IPlugin \<times> 'v PluginConfig) list" where
  "simple_register r p config =
     (case simple_getPlugin r (md_name (metadata p)) of
        Some q \<Rightarrow> (Some (RegistryError ''already registered''), r)
      | None \<Rightarrow> (None, r @ [(p, config)]))"

definition simple_unregister ::
  "(IPlugin \<times> 'v PluginConfig) list \<Rightarrow> string \<Rightarrow>
   error option \<times> (IPlugin \<times> 'v PluginConfig) list" where
  "simple_unregister r n =
     (case simple_getPlugin r n of
        None \<Rightarrow> (Some (RegistryError ''not registered''), r)
      | Some q \<Rightarrow>
          (if list_ex (\<lambda>(d, c). n \<in> set (md_dependencies (metadata d))) r
           then (Some (RegistryError ''has dependents''), r)
           else (None, filter (\<lambda>(d, c). md_name (metadata d) \<noteq> n) r)))"

definition simple_registry :: "((IPlugin \<times> 'v PluginConfig) list, 'v) PluginRegistry" where
  "simple_registry =
     \<lparr> reg_state = [], reg_register = simple_register, reg_unregister = simple_unregister,
       reg_getPlugin = simple_getPlugin \<rparr>"

definition registered_names :: "((IPlugin \<times> 'v PluginConfig) list, 'v) PluginCollectionManager \<Rightarrow> string list" where
  "registered_names st = map (\<lambda>(q, c). md_name (metadata q)) (reg_state (registry st))"

text \<open>
  The scenario of section 8 of the spec: a collection \<^verbatim>\<open>core\<close> with \<^verbatim>\<open>logger\<close>
  (utility, enabled by default) and \<^verbatim>\<open>tracer\<close> (utility, disabled by default, depending
  on \<^verbatim>\<open>logger\<close>).
\<close>

definition logger_plugin :: IPlugin where
  "logger_plugin =
     \<lparr> metadata = \<lparr> md_name = ''logger'', md_description = None, md_dependencies = [] \<rparr> \<rparr>"

definition tracer_plugin :: IPlugin where
  "tracer_plugin =
     \<lparr> metadata = \<lparr> md_name = ''tracer'', md_description = None,
                    md_dependencies = [''logger''] \<rparr> \<rparr>"

definition logger :: PluginCollectionEntry where
  "logger =
     \<lparr> plugin = Descriptor logger_plugin, defaultEnabled = True, category = utility,
       tags = None, requiredCapabilities = None, description = None \<rparr>"

definition tracer :: PluginCollectionEntry where
  "tracer =
     \<lparr> plugin = Factory (\<lambda>u. tracer_plugin), defaultEnabled = False, category = utility,
       tags = None, requiredCapabilities = None, description = None \<rparr>"

definition core :: PluginCollection where
  "core =
     \<lparr> coll_id = ''core'', coll_name = ''Core'', coll_version = ''1.0.0'',
       coll_description = None, coll_author = None, coll_license = None,
       coll_repository = None, coll_categories = None, plugins = [logger, tracer] \<rparr>"

definition fresh :: "((IPlugin \<times> string PluginConfig) list, string) PluginCollectionManager" where
  "fresh = new_manager simple_registry None"

definition core_loaded :: "((IPlugin \<times> string PluginConfig) list, string) PluginCollectionManager" where
  "core_loaded = snd (loadCollection fresh core)"

definition empty_snapshot :: "string CollectionManagerState" where
  "empty_snapshot =
     \<lparr> state_version = ''1.0.0'', state_collections = [], state_enabledPlugins = [],
       state_disabledPlugins = [], state_pluginSettings = [] \<rparr>"

text \<open>Snapshots that list one collection id, in the enabled or in the disabled table.\<close>

definition snapshot_enabled :: "string \<Rightarrow> string list \<Rightarrow> string CollectionManagerState" where
  "snapshot_enabled cid names = empty_snapshot\<lparr> state_enabledPlugins := [(cid, names)] \<rparr>"

definition snapshot_disabled :: "string \<Rightarrow> string list \<Rightarrow> string CollectionManagerState" where
  "snapshot_disabled cid names = empty_snapshot\<lparr> state_disabledPlugins := [(cid, names)] \<rparr>"

text \<open>
  A search example after section 8 of the spec: \<^verbatim>\<open>notes\<close> matches the query
  \<^verbatim>\<open>auth\<close> by its description only, \<^verbatim>\<open>auth-provider\<close> by its name.
\<close>

definition token_notes :: PluginCollectionEntry where
  "token_notes =
     \<lparr> plugin = Descriptor
         \<lparr> metadata = \<lparr> md_name = ''notes'', md_description = Some ''Keeps AUTH tokens'',
                        md_dependencies = [] \<rparr> \<rparr>,
       defaultEnabled = True, category = utility, tags = None,
       requiredCapabilities = None, description = None \<rparr>"

definition auth_provider :: PluginCollectionEntry where
  "auth_provider =
     \<lparr> plugin = Descriptor
         \<lparr> metadata = \<lparr> md_name = ''Auth-Provider'', md_description = None,
                        md_dependencies = [] \<rparr> \<rparr>,
       defaultEnabled = True, category = provider, tags = None,
       requiredCapabilities = None, description = None \<rparr>"

definition security :: PluginCollection where
  "security =
     \<lparr> coll_id = ''security'', coll_name = ''Security'', coll_version = ''1.0.0'',
       coll_description = None, coll_author = None, coll_license = None,
       coll_repository = None, coll_categories = None, plugins = [token_notes, auth_provider] \<rparr>"

text \<open>An entry whose name is the Latin-1 capital E with acute accent (code unit 201).\<close>

definition accent_entry :: PluginCollectionEntry where
  "accent_entry =
     \<lparr> plugin = Descriptor
         \<lparr> metadata = \<lparr> md_name = [CHR 0xC9], md_description = None,
                        md_dependencies = [] \<rparr> \<rparr>,
       defaultEnabled = True, category = utility, tags = None,
       requiredCapabilities = None, description = None \<rparr>"

section \<open>Properties\<close>

subsection \<open>Promises in conditions\<close>

lemma truthy_promise_always: "truthy_promise p"
  by (cases p) simp_all

lemma truthy_entry_always: "truthy_entry v"
  by (cases v) simp_all

subsection \<open>Search\<close>







text \<open>\<^verbatim>\<open>s.includes(q)\<close> is the contiguous-substring test.\<close>

lemma str_includes_sublist: "str_includes s q \<longleftrightarrow> sublist q s"
  by (induction s) (auto simp: sublist_Cons_right)











text \<open>
  The example: \<^verbatim>\<open>Auth-Provider\<close> scores 50 and comes before \<^verbatim>\<open>notes\<close>, which scores
  25, although \<^verbatim>\<open>notes\<close> is declared first.
\<close>

lemma searchPlugins_example:
  "map (\<lambda>r. (res_pluginName r, res_score r))
     (searchPlugins (snd (loadCollection fresh security)) ''auth'')
   = [(''Auth-Provider'', 50), (''notes'', 25)]"
  by code_simp

text \<open>
  Beyond ASCII: the query of the small e with acute accent (code unit 233) matches the
  name of the capital one (201) exactly, as \<^verbatim>\<open>toLowerCase\<close> folds it.
\<close>

lemma score_entry_accent:
  "toLowerCase [CHR 0xC9] = [CHR 0xE9]
   \<and> score_entry (toLowerCase [CHR 0xE9]) accent_entry = 100
   \<and> spec_score [CHR 0xE9] accent_entry = 100"
  by code_simp

subsection \<open>Settings\<close>

text \<open>
  Claim C10. For a plugin name with no stored settings, \<^verbatim>\<open>getPluginSettings\<close> returns
  the empty object, and \<^verbatim>\<open>updatePluginSettings\<close> leaves the manager in the state
  \<^verbatim>\<open>setPluginSettings\<close> leaves it in.
\<close>

theorem getPluginSettings_default:
  "pluginSettings st pluginName = None \<Longrightarrow>
     getPluginSettings st pluginName = Map.empty
     \<and> updatePluginSettings st pluginName settings = setPluginSettings st pluginName settings"
  by (simp add: getPluginSettings_def updatePluginSettings_def setPluginSettings_def)

theorem getPluginSettings_default_witness:
  "pluginSettings fresh ''logger'' = None
   \<and> getPluginSettings fresh ''logger'' = Map.empty
   \<and> updatePluginSettings fresh ''logger'' [''level'' \<mapsto> ''debug'']
       = setPluginSettings fresh ''logger'' [''level'' \<mapsto> ''debug'']"
proof -
  have h: "pluginSettings fresh ''logger'' = None"
    by (simp add: fresh_def new_manager_def)
  show ?thesis
    using h getPluginSettings_default [OF h, of "[''level'' \<mapsto> ''debug'']"] by simp
qed

subsection \<open>What the activation operations do\<close>

text \<open>
  On a loaded collection \<^verbatim>\<open>enablePlugin\<close> and \<^verbatim>\<open>disablePlugin\<close> change the override
  sets and then throw a \<^verbatim>\<open>TypeError\<close>, whatever the plugin name: \<^verbatim>\<open>entry\<close> holds a
  promise, so the check for a missing entry never fires and the plugin resolved from
  \<^verbatim>\<open>entry.plugin\<close> is \<^verbatim>\<open>undefined\<close>. The registry is not reached.
\<close>

lemma enablePlugin_loaded:
  "map_of (collections st) cid = Some c \<Longrightarrow>
   enablePlugin st cid n =
     (Inl TypeError,
      st\<lparr> disabledOverrides := override_delete (disabledOverrides st) cid n,
          enabledOverrides := override_add (enabledOverrides st) cid n \<rparr>)"
  by (simp add: enablePlugin_def Let_def)

lemma enablePlugin_not_loaded:
  "map_of (collections st) cid = None \<Longrightarrow>
   enablePlugin st cid n = (Inl (CollectionNotFound cid), st)"
  by (simp add: enablePlugin_def)

lemma disablePlugin_loaded:
  "map_of (collections st) cid = Some c \<Longrightarrow>
   disablePlugin st cid n =
     (Inl TypeError,
      st\<lparr> enabledOverrides := override_delete (enabledOverrides st) cid n,
          disabledOverrides := override_add (disabledOverrides st) cid n \<rparr>)"
  by (simp add: disablePlugin_def Let_def)

lemma disablePlugin_not_loaded:
  "map_of (collections st) cid = None \<Longrightarrow>
   disablePlugin st cid n = (Inl (CollectionNotFound cid), st)"
  by (simp add: disablePlugin_def)

lemma isEnabled_loaded:
  "map_of (collections st) cid = Some c \<Longrightarrow> isEnabled st cid n = Promised (Rejected TypeError)"
  by (simp add: isEnabled_def Let_def)

lemma isEnabled_not_loaded:
  "map_of (collections st) cid = None \<Longrightarrow> isEnabled st cid n = Plain False"
  by (simp add: isEnabled_def)

lemma togglePlugin_state:
  "snd (togglePlugin st cid n) =
     (if truthy (isEnabled st cid n) then snd (disablePlugin st cid n)
      else snd (enablePlugin st cid n))"
  by (simp add: togglePlugin_def split: prod.splits sum.splits)

lemma togglePlugin_never_returns: "fst (togglePlugin st cid n) \<noteq> Inr b"
  by (cases "map_of (collections st) cid")
     (simp_all add: togglePlugin_def isEnabled_loaded isEnabled_not_loaded
        disablePlugin_loaded enablePlugin_not_loaded)

subsection \<open>Frame properties\<close>

text \<open>Registry calls and the loops built on them leave the manager's maps alone.\<close>

lemma registry_register_frame:
  "enabledOverrides (snd (registry_register st p config)) = enabledOverrides st
   \<and> disabledOverrides (snd (registry_register st p config)) = disabledOverrides st
   \<and> collections (snd (registry_register st p config)) = collections st
   \<and> pluginSettings (snd (registry_register st p config)) = pluginSettings st"
  by (simp add: registry_register_def split: prod.splits)

lemma registry_unregister_frame:
  "enabledOverrides (snd (registry_unregister st n)) = enabledOverrides st
   \<and> disabledOverrides (snd (registry_unregister st n)) = disabledOverrides st
   \<and> collections (snd (registry_unregister st n)) = collections st
   \<and> pluginSettings (snd (registry_unregister st n)) = pluginSettings st"
  by (simp add: registry_unregister_def split: prod.splits)

lemma registerPlugin_frame:
  "enabledOverrides (snd (registerPlugin st v)) = enabledOverrides st
   \<and> disabledOverrides (snd (registerPlugin st v)) = disabledOverrides st
   \<and> collections (snd (registerPlugin st v)) = collections st
   \<and> pluginSettings (snd (registerPlugin st v)) = pluginSettings st"
  by (simp add: registerPlugin_def Let_def registry_register_frame split: option.splits)

lemma load_entries_frame:
  "enabledOverrides (snd (load_entries st cid es)) = enabledOverrides st
   \<and> disabledOverrides (snd (load_entries st cid es)) = disabledOverrides st
   \<and> collections (snd (load_entries st cid es)) = collections st
   \<and> pluginSettings (snd (load_entries st cid es)) = pluginSettings st"
proof (induction es arbitrary: st)
  case Nil
  show ?case by simp
next
  case (Cons e es)
  obtain r st' where reg: "registerPlugin st (EntryObject e) = (r, st')"
    by (cases "registerPlugin st (EntryObject e)")
  have frame: "enabledOverrides st' = enabledOverrides st
     \<and> disabledOverrides st' = disabledOverrides st
     \<and> collections st' = collections st \<and> pluginSettings st' = pluginSettings st"
    using registerPlugin_frame [of st "EntryObject e"] reg by simp
  show ?case
  proof (cases r)
    case (Inl err)
    with reg frame show ?thesis by (simp add: truthy_promise_always)
  next
    case (Inr u)
    with reg frame Cons.IH [of st'] show ?thesis by (simp add: truthy_promise_always)
  qed
qed

lemma unload_entries_frame:
  "enabledOverrides (unload_entries st es) = enabledOverrides st
   \<and> disabledOverrides (unload_entries st es) = disabledOverrides st
   \<and> collections (unload_entries st es) = collections st
   \<and> pluginSettings (unload_entries st es) = pluginSettings st"
  by (induction es arbitrary: st)
     (simp_all add: Let_def registry_unregister_frame split: option.splits)

lemma import_enabled_fields:
  "enabledOverrides (import_enabled st l) x = imported_set l (enabledOverrides st) x
   \<and> disabledOverrides (import_enabled st l) = disabledOverrides st
   \<and> collections (import_enabled st l) = collections st"
  by (induction l arbitrary: st)
     (auto simp: imported_set_def map_add_def split: option.splits)

lemma import_disabled_fields:
  "disabledOverrides (import_disabled st l) x = imported_set l (disabledOverrides st) x
   \<and> enabledOverrides (import_disabled st l) = enabledOverrides st
   \<and> collections (import_disabled st l) = collections st"
  by (induction l arbitrary: st)
     (auto simp: imported_set_def map_add_def split: option.splits)

lemma import_settings_fields:
  "disabledOverrides (import_settings st l) = disabledOverrides st
   \<and> enabledOverrides (import_settings st l) = enabledOverrides st
   \<and> collections (import_settings st l) = collections st"
  by (induction l arbitrary: st) auto

lemma importState_fields:
  "enabledOverrides (importState st s) x =
     imported_set (state_enabledPlugins s) (enabledOverrides st) x
   \<and> disabledOverrides (importState st s) x =
     imported_set (state_disabledPlugins s) (disabledOverrides st) x
   \<and> collections (importState st s) = collections st"
  by (simp add: importState_def import_settings_fields import_disabled_fields
      import_enabled_fields)

lemma imported_set_unlisted:
  "x \<notin> fst ` set l \<Longrightarrow> imported_set l held x = held x"
proof -
  assume "x \<notin> fst ` set l"
  then have "map_of (rev l) x = None"
    by (simp add: map_of_eq_None_iff)
  then show ?thesis by (simp add: imported_set_def)
qed

subsection \<open>The override sets stay disjoint\<close>

lemma sets_disjoint_add_delete:
  "sets_disjoint (a x) (b x) \<Longrightarrow>
   sets_disjoint (override_add a cid n x) (override_delete b cid n x)"
  by (auto simp: sets_disjoint_def override_add_def override_delete_def split: option.splits)

lemma sets_disjoint_delete_add:
  "sets_disjoint (a x) (b x) \<Longrightarrow>
   sets_disjoint (override_delete a cid n x) (override_add b cid n x)"
  by (auto simp: sets_disjoint_def override_add_def override_delete_def split: option.splits)

lemma enablePlugin_disjoint:
  "overrides_disjoint st \<Longrightarrow> overrides_disjoint (snd (enablePlugin st cid n))"
  by (cases "map_of (collections st) cid")
     (simp_all add: enablePlugin_loaded enablePlugin_not_loaded overrides_disjoint_def
        sets_disjoint_add_delete)

lemma disablePlugin_disjoint:
  "overrides_disjoint st \<Longrightarrow> overrides_disjoint (snd (disablePlugin st cid n))"
  by (cases "map_of (collections st) cid")
     (simp_all add: disablePlugin_loaded disablePlugin_not_loaded overrides_disjoint_def
        sets_disjoint_delete_add)

lemma togglePlugin_disjoint:
  "overrides_disjoint st \<Longrightarrow> overrides_disjoint (snd (togglePlugin st cid n))"
  by (simp add: togglePlugin_state enablePlugin_disjoint disablePlugin_disjoint)

lemma loadCollection_disjoint:
  "overrides_disjoint st \<Longrightarrow> overrides_disjoint (snd (loadCollection st c))"
  by (cases "map_of (collections st) (coll_id c)")
     (simp_all add: loadCollection_def load_entries_frame overrides_disjoint_def
        sets_disjoint_def)

lemma unloadCollection_disjoint:
  "overrides_disjoint st \<Longrightarrow> overrides_disjoint (snd (unloadCollection st cid))"
  by (cases "map_of (collections st) cid")
     (simp_all add: unloadCollection_def Let_def unload_entries_frame overrides_disjoint_def
        sets_disjoint_def)

lemma enable_entries_disjoint:
  "overrides_disjoint st \<Longrightarrow> overrides_disjoint (snd (enable_entries st cid es))"
proof (induction es arbitrary: st)
  case Nil
  then show ?case by simp
next
  case (Cons e es)
  let ?n = "md_name (metadata (resolvePlugin (plugin e)))"
  from Cons.prems have d: "overrides_disjoint (snd (enablePlugin st cid ?n))"
    by (rule enablePlugin_disjoint)
  show ?case
  proof (cases "enablePlugin st cid ?n")
    case (Pair r st')
    with d Cons.IH [of st'] show ?thesis by (cases r) simp_all
  qed
qed

lemma enableAll_disjoint:
  "overrides_disjoint st \<Longrightarrow> overrides_disjoint (snd (enableAll st cid))"
  by (cases "map_of (collections st) cid") (simp_all add: enableAll_def enable_entries_disjoint)

lemma disable_entries_disjoint:
  "overrides_disjoint st \<Longrightarrow> overrides_disjoint (disable_entries st cid es)"
  by (induction es arbitrary: st) (simp_all add: disablePlugin_disjoint)

lemma disableAll_disjoint:
  "overrides_disjoint st \<Longrightarrow> overrides_disjoint (snd (disableAll st cid))"
  by (cases "map_of (collections st) cid") (simp_all add: disableAll_def disable_entries_disjoint)

lemma enable_category_entries_disjoint:
  "overrides_disjoint st \<Longrightarrow> overrides_disjoint (enable_category_entries st cat cid es)"
  by (induction es arbitrary: st) (simp_all add: enablePlugin_disjoint)

lemma enable_category_collections_disjoint:
  "overrides_disjoint st \<Longrightarrow> overrides_disjoint (enable_category_collections st cat cs)"
  by (induction cs arbitrary: st) (auto simp: enable_category_entries_disjoint)

lemma disable_category_entries_disjoint:
  "overrides_disjoint st \<Longrightarrow> overrides_disjoint (disable_category_entries st cat cid es)"
  by (induction es arbitrary: st) (simp_all add: disablePlugin_disjoint)

lemma disable_category_collections_disjoint:
  "overrides_disjoint st \<Longrightarrow> overrides_disjoint (disable_category_collections st cat cs)"
  by (induction cs arbitrary: st) (auto simp: disable_category_entries_disjoint)

lemma importState_disjoint:
  assumes inv: "overrides_disjoint st" and ok: "import_consistent st s"
  shows "overrides_disjoint (importState st s)"
  unfolding overrides_disjoint_def
proof
  fix x
  show "sets_disjoint (enabledOverrides (importState st s) x)
          (disabledOverrides (importState st s) x)"
  proof (cases "x \<in> fst ` set (state_enabledPlugins s) \<union> fst ` set (state_disabledPlugins s)")
    case True
    with ok show ?thesis
      by (auto simp: import_consistent_def list_all_iff importState_fields)
  next
    case False
    with inv show ?thesis
      by (simp add: importState_fields imported_set_unlisted overrides_disjoint_def)
  qed
qed

lemma settings_disjoint:
  "overrides_disjoint st \<Longrightarrow> overrides_disjoint (setPluginSettings st n v)"
  "overrides_disjoint st \<Longrightarrow> overrides_disjoint (updatePluginSettings st n v)"
  by (simp_all add: setPluginSettings_def updatePluginSettings_def Let_def overrides_disjoint_def)

lemma apply_operation_disjoint:
  "overrides_disjoint st \<Longrightarrow> consistent_imports st [op] \<Longrightarrow>
   overrides_disjoint (apply_operation st op)"
  by (cases op)
     (simp_all add: loadCollection_disjoint unloadCollection_disjoint enablePlugin_disjoint
        disablePlugin_disjoint togglePlugin_disjoint enableAll_disjoint disableAll_disjoint
        enableCategory_def enable_category_collections_disjoint
        disableCategory_def disable_category_collections_disjoint importState_disjoint
        settings_disjoint)

lemma run_disjoint:
  "overrides_disjoint st \<Longrightarrow> consistent_imports st ops \<Longrightarrow> overrides_disjoint (run st ops)"
proof (induction ops arbitrary: st)
  case Nil
  then show ?case by simp
next
  case (Cons op ops)
  from Cons.prems have one: "consistent_imports st [op]"
    by (cases op) simp_all
  from Cons.prems have rest: "consistent_imports (apply_operation st op) ops"
    by (cases op) simp_all
  from Cons.prems(1) one have "overrides_disjoint (apply_operation st op)"
    by (rule apply_operation_disjoint)
  with rest show ?case by (simp add: Cons.IH)
qed

lemma new_manager_disjoint: "overrides_disjoint (new_manager reg auto)"
  by (simp add: overrides_disjoint_def new_manager_def sets_disjoint_def)

text \<open>
  Claim C2, as amended. Starting from a new manager, after any sequence of operations
  (load, unload, enable, disable, toggle, the bulk and category operations, the settings
  operations and \<^verbatim>\<open>importState\<close>) in which every imported snapshot is consistent with
  the state it is imported into, no plugin name is in both override sets of a
  collection id. An operation that throws counts with the state it leaves.
\<close>

theorem overrides_never_overlap:
  "consistent_imports (new_manager reg auto) ops \<Longrightarrow>
   \<not> (override_has (enabledOverrides (run (new_manager reg auto) ops)) cid n
      \<and> override_has (disabledOverrides (run (new_manager reg auto) ops)) cid n)"
proof -
  assume "consistent_imports (new_manager reg auto) ops"
  with new_manager_disjoint have "overrides_disjoint (run (new_manager reg auto) ops)"
    by (rule run_disjoint)
  then have "sets_disjoint (enabledOverrides (run (new_manager reg auto) ops) cid)
               (disabledOverrides (run (new_manager reg auto) ops) cid)"
    by (simp add: overrides_disjoint_def)
  then show ?thesis
    by (auto simp: sets_disjoint_def override_has_def split: option.splits)
qed

theorem overrides_never_overlap_witness:
  "consistent_imports fresh
     [LoadCollection core, EnablePlugin ''core'' ''tracer'', DisablePlugin ''core'' ''tracer'',
      ImportState (snapshot_enabled ''core'' [''logger'']), TogglePlugin ''core'' ''logger'']
   \<and> \<not> (override_has (enabledOverrides (run fresh
            [LoadCollection core, EnablePlugin ''core'' ''tracer'', DisablePlugin ''core'' ''tracer'',
             ImportState (snapshot_enabled ''core'' [''logger'']), TogglePlugin ''core'' ''logger'']))
            ''core'' ''logger''
        \<and> override_has (disabledOverrides (run fresh
            [LoadCollection core, EnablePlugin ''core'' ''tracer'', DisablePlugin ''core'' ''tracer'',
             ImportState (snapshot_enabled ''core'' [''logger'']), TogglePlugin ''core'' ''logger'']))
            ''core'' ''logger'')"
proof -
  have h: "consistent_imports fresh
     [LoadCollection core, EnablePlugin ''core'' ''tracer'', DisablePlugin ''core'' ''tracer'',
      ImportState (snapshot_enabled ''core'' [''logger'']), TogglePlugin ''core'' ''logger'']"
    by code_simp
  show ?thesis
    using h overrides_never_overlap [OF h [unfolded fresh_def], of "''core''" "''logger''"]
    by (simp add: fresh_def)
qed

text \<open>
  Claim C2 as stated fails: \<^verbatim>\<open>importState\<close> replaces each set on its own and checks
  nothing. Importing a snapshot that lists \<^verbatim>\<open>logger\<close> as enabled for \<^verbatim>\<open>core\<close> and
  then one that lists it as disabled leaves the name in both sets.
\<close>

theorem importState_overlap_counterexample:
  "override_has
     (enabledOverrides (run fresh [ImportState (snapshot_enabled ''core'' [''logger'']),
                                   ImportState (snapshot_disabled ''core'' [''logger''])]))
     ''core'' ''logger''
   \<and> override_has
     (disabledOverrides (run fresh [ImportState (snapshot_enabled ''core'' [''logger'']),
                                    ImportState (snapshot_disabled ''core'' [''logger''])]))
     ''core'' ''logger''"
  by code_simp

subsection \<open>A disable the registry would refuse\<close>

text \<open>
  The branch of \<^verbatim>\<open>disablePlugin\<close> that catches a refused unregister and throws
  \<^verbatim>\<open>Cannot disable ...: other plugins may depend on it\<close> is never reached, and the
  registry is left as it was: on a loaded collection the \<^verbatim>\<open>TypeError\<close> of the
  un-awaited lookup comes first, after the override sets have been changed.
\<close>

lemma disablePlugin_never_CannotDisable:
  "fst (disablePlugin st cid n) \<noteq> Inl (CannotDisable x)"
  by (cases "map_of (collections st) cid")
     (simp_all add: disablePlugin_loaded disablePlugin_not_loaded)

lemma disablePlugin_registry_untouched:
  "registry (snd (disablePlugin st cid n)) = registry st"
  by (cases "map_of (collections st) cid")
     (simp_all add: disablePlugin_loaded disablePlugin_not_loaded)

text \<open>
  Claim C5 fails on the code. With \<^verbatim>\<open>core\<close> loaded, \<^verbatim>\<open>logger\<close> is registered and the
  registry would refuse to unregister it (\<^verbatim>\<open>tracer\<close>, which depends on it, is
  registered). \<^verbatim>\<open>disablePlugin('core', 'logger')\<close> throws a \<^verbatim>\<open>TypeError\<close>, not the
  error for a plugin that is depended upon; \<^verbatim>\<open>logger\<close> is then recorded as explicitly
  disabled and its effective state is false, while it remains registered.
\<close>

theorem disablePlugin_core_logger:
  "registry_getPlugin core_loaded ''logger'' = Some logger_plugin
   \<and> fst (reg_unregister (registry core_loaded) (reg_state (registry core_loaded)) ''logger'')
       = Some (RegistryError ''has dependents'')
   \<and> fst (disablePlugin core_loaded ''core'' ''logger'') = Inl TypeError
   \<and> override_has (disabledOverrides (snd (disablePlugin core_loaded ''core'' ''logger'')))
       ''core'' ''logger''
   \<and> isPluginEnabled (snd (disablePlugin core_loaded ''core'' ''logger'')) ''core''
       (EntryObject logger) = Fulfilled False
   \<and> registry_getPlugin (snd (disablePlugin core_loaded ''core'' ''logger'')) ''logger''
       = Some logger_plugin"
  by code_simp

subsection \<open>Import before load\<close>

text \<open>
  Claim C7, as amended. If a snapshot is imported while a collection id is not loaded
  and the collection is loaded afterwards, \<^verbatim>\<open>loadCollection\<close> sets both override sets
  of the id to empty: the imported overrides for the id are dropped, and the
  effective state \<^verbatim>\<open>isPluginEnabled\<close> computes for every entry after the load is the
  entry's \<^verbatim>\<open>defaultEnabled\<close> flag.
\<close>

theorem loadCollection_resets_imported_overrides:
  assumes "map_of (collections st) (coll_id c) = None"
  shows "enabledOverrides (snd (loadCollection (importState st s) c)) (coll_id c) = Some {}
         \<and> disabledOverrides (snd (loadCollection (importState st s) c)) (coll_id c) = Some {}
         \<and> list_all
             (\<lambda>e. isPluginEnabled (snd (loadCollection (importState st s) c)) (coll_id c)
                    (EntryObject e) = Fulfilled (defaultEnabled e))
             (plugins c)"
proof -
  let ?st' = "snd (loadCollection (importState st s) c)"
  from assms have "map_of (collections (importState st s)) (coll_id c) = None"
    by (simp add: importState_fields)
  then have en: "enabledOverrides ?st' (coll_id c) = Some {}"
    and dis: "disabledOverrides ?st' (coll_id c) = Some {}"
    by (simp_all add: loadCollection_def load_entries_frame)
  have "isPluginEnabled ?st' (coll_id c) (EntryObject e) = Fulfilled (defaultEnabled e)" for e
    using en dis by (simp add: override_has_def Let_def)
  with en dis show ?thesis
    by (simp add: list_all_iff)
qed

theorem loadCollection_resets_imported_overrides_witness:
  "map_of (collections fresh) (coll_id core) = None
   \<and> enabledOverrides
       (snd (loadCollection (importState fresh (snapshot_enabled ''core'' [''tracer''])) core))
       (coll_id core) = Some {}
   \<and> disabledOverrides
       (snd (loadCollection (importState fresh (snapshot_enabled ''core'' [''tracer''])) core))
       (coll_id core) = Some {}
   \<and> list_all
       (\<lambda>e. isPluginEnabled
              (snd (loadCollection (importState fresh (snapshot_enabled ''core'' [''tracer''])) core))
              (coll_id core) (EntryObject e) = Fulfilled (defaultEnabled e))
       (plugins core)"
proof -
  have h: "map_of (collections fresh) (coll_id core) = None"
    by (simp add: fresh_def new_manager_def)
  show ?thesis
    using h loadCollection_resets_imported_overrides
      [OF h, of "snapshot_enabled ''core'' [''tracer'']"]
    by simp
qed

text \<open>
  Claim C7 as stated fails. \<^verbatim>\<open>tracer\<close> is disabled by default; a snapshot that lists
  it as enabled for \<^verbatim>\<open>core\<close> is imported before \<^verbatim>\<open>core\<close> is loaded. Before the load
  the override makes its effective state true; after the load it is false again.
\<close>

theorem import_before_load_counterexample:
  "map_of (collections (importState fresh (snapshot_enabled ''core'' [''tracer'']))) ''core'' = None
   \<and> isPluginEnabled (importState fresh (snapshot_enabled ''core'' [''tracer'']))
        ''core'' (EntryObject tracer) = Fulfilled True
   \<and> defaultEnabled tracer = False
   \<and> isPluginEnabled
        (snd (loadCollection (importState fresh (snapshot_enabled ''core'' [''tracer''])) core))
        ''core'' (EntryObject tracer) = Fulfilled False"
  by code_simp

subsection \<open>Calls that are not awaited\<close>

text \<open>
  \<^verbatim>\<open>getStats\<close> counts every entry as enabled: its condition is a promise.
\<close>

lemma stats_entries_counts:
  "enabledPlugins (stats_entries st cid es acc) = enabledPlugins acc + length es
   \<and> disabledPlugins (stats_entries st cid es acc) = disabledPlugins acc
   \<and> totalPlugins (stats_entries st cid es acc) = totalPlugins acc + length es"
  by (induction es arbitrary: acc) (simp_all add: Let_def truthy_promise_always)

lemma stats_collections_counts:
  "enabledPlugins (stats_collections st cs acc) + totalPlugins acc
     = totalPlugins (stats_collections st cs acc) + enabledPlugins acc
   \<and> disabledPlugins (stats_collections st cs acc) = disabledPlugins acc"
proof (induction cs arbitrary: acc)
  case Nil
  show ?case by simp
next
  case (Cons p cs)
  obtain cid c where p: "p = (cid, c)" by (cases p)
  show ?case
    using Cons.IH [of "stats_entries st cid (plugins c) acc"]
      stats_entries_counts [of st cid "plugins c" acc]
    by (simp add: p)
qed

lemma getStats_counts:
  "enabledPlugins (getStats st) = totalPlugins (getStats st) \<and> disabledPlugins (getStats st) = 0"
  using stats_collections_counts [of st "collections st"
      "\<lparr> totalCollections = length (collections st), totalPlugins = 0,
         enabledPlugins = 0, disabledPlugins = 0,
         byCategory = [(agent, 0), (task, 0), (tool, 0), (memory, 0), (provider, 0),
                       (hook, 0), (worker, 0), (integration, 0), (utility, 0)] \<rparr>"]
  by (simp add: getStats_def)

text \<open>
  Claim C1 fails on the code. With \<^verbatim>\<open>core\<close> loaded, \<^verbatim>\<open>logger\<close> is an entry of it
  whose effective state is true, and \<^verbatim>\<open>isEnabled('core', 'logger')\<close> returns a promise
  that is rejected with a \<^verbatim>\<open>TypeError\<close>, not the boolean.
\<close>

theorem isEnabled_core_logger:
  "map_of (collections core_loaded) ''core'' = Some core
   \<and> find_entry (plugins core) ''logger'' = Some logger
   \<and> isPluginEnabled core_loaded ''core'' (EntryObject logger) = Fulfilled True
   \<and> isEnabled core_loaded ''core'' ''logger'' = Promised (Rejected TypeError)"
  by code_simp

text \<open>
  Claim C3 fails on the code. Loading \<^verbatim>\<open>core\<close> into a new manager succeeds and
  registers \<^verbatim>\<open>logger\<close> and \<^verbatim>\<open>tracer\<close>, in this order, although the effective state
  of \<^verbatim>\<open>tracer\<close> is false.
\<close>

theorem loadCollection_core_registers_tracer:
  "fst (loadCollection fresh core) = Inr ()
   \<and> isPluginEnabled core_loaded ''core'' (EntryObject tracer) = Fulfilled False
   \<and> registered_names core_loaded = [''logger'', ''tracer'']"
  by code_simp

text \<open>
  Claim C4 fails on the code. With \<^verbatim>\<open>core\<close> loaded, \<^verbatim>\<open>togglePlugin('core', 'logger')\<close>
  throws a \<^verbatim>\<open>TypeError\<close> instead of returning a boolean, and so does a second call;
  after the two calls the effective state of \<^verbatim>\<open>logger\<close> is false where it was true,
  and \<^verbatim>\<open>logger\<close> is still registered.
\<close>

theorem togglePlugin_core_logger:
  "isPluginEnabled core_loaded ''core'' (EntryObject logger) = Fulfilled True
   \<and> fst (togglePlugin core_loaded ''core'' ''logger'') = Inl TypeError
   \<and> fst (togglePlugin (snd (togglePlugin core_loaded ''core'' ''logger'')) ''core'' ''logger'')
       = Inl TypeError
   \<and> isPluginEnabled (snd (togglePlugin (snd (togglePlugin core_loaded ''core'' ''logger''))
                            ''core'' ''logger''))
       ''core'' (EntryObject logger) = Fulfilled False
   \<and> registered_names (snd (togglePlugin (snd (togglePlugin core_loaded ''core'' ''logger''))
                             ''core'' ''logger''))
       = [''logger'', ''tracer'']"
  by code_simp

text \<open>
  Claim C6 fails on the code. For a collection id that is not loaded \<^verbatim>\<open>isEnabled\<close>
  returns false; for the loaded \<^verbatim>\<open>core\<close> and a name that matches no entry it returns
  a rejected promise, which is truthy, not false.
\<close>

theorem isEnabled_core_unknown_name:
  "map_of (collections core_loaded) ''core'' = Some core
   \<and> find_entry (plugins core) ''missing'' = None
   \<and> isEnabled core_loaded ''core'' ''missing'' = Promised (Rejected TypeError)
   \<and> truthy (isEnabled core_loaded ''core'' ''missing'')
   \<and> isEnabled core_loaded ''absent'' ''logger'' = Plain False"
  by code_simp

text \<open>
  Claim C9 fails on the code. With \<^verbatim>\<open>core\<close> loaded, one entry is effectively enabled
  and one is not; \<^verbatim>\<open>getStats\<close> reports one collection, two plugins and all nine
  categories, but two enabled plugins and no disabled one.
\<close>

theorem getStats_core:
  "isPluginEnabled core_loaded ''core'' (EntryObject logger) = Fulfilled True
   \<and> isPluginEnabled core_loaded ''core'' (EntryObject tracer) = Fulfilled False
   \<and> totalCollections (getStats core_loaded) = 1
   \<and> totalPlugins (getStats core_loaded) = 2
   \<and> enabledPlugins (getStats core_loaded) = 2
   \<and> disabledPlugins (getStats core_loaded) = 0
   \<and> byCategory (getStats core_loaded) =
       [(agent, 0), (task, 0), (tool, 0), (memory, 0), (provider, 0),
        (hook, 0), (worker, 0), (integration, 0), (utility, 2)]"
  by code_simp

end
